theory Spec2Isabelle
  imports Main "HOL-Library.Word"
begin

section \<open>Go values used by the program\<close>

text \<open>
  \<^verbatim>\<open>float64\<close> values (latitude, longitude) are only stored and handed to the sunrise
  calculator, never computed with: they are kept as their 64-bit IEEE pattern.
  A \<^verbatim>\<open>time.Duration\<close> is an \<^verbatim>\<open>int64\<close> count of nanoseconds whose arithmetic wraps.
\<close>

type_synonym float64 = "64 word"
type_synonym Duration = "64 word"

definition Second :: Duration where
  "Second = 1000000000"

definition Hour :: Duration where
  "Hour = 3600 * Second"

text \<open>
  A \<^verbatim>\<open>time.Time\<close> is an instant together with a location. The instant is the number of
  nanoseconds since 1970-01-01T00:00:00Z; the location gives, for a Unix second, the
  offset east of UTC (in seconds) that is in force then, which covers UTC, fixed zones
  and zones with daylight-saving transitions. None of the values compared by the
  program carries a monotonic clock reading on both sides (the sunrise and sunset
  instants never have one), so comparisons are on the instant.
\<close>

record Time =
  unix_nano :: int
  loc_offset :: "int \<Rightarrow> int"

definition unix_sec :: "Time \<Rightarrow> int" where
  "unix_sec t = unix_nano t div 1000000000"

definition Unix :: "Time \<Rightarrow> 64 word" where
  "Unix t = word_of_int (unix_sec t)"

definition Add :: "Time \<Rightarrow> Duration \<Rightarrow> Time" where
  "Add t d = t\<lparr>unix_nano := unix_nano t + sint d\<rparr>"

definition Before :: "Time \<Rightarrow> Time \<Rightarrow> bool" where
  "Before t u = (unix_nano t < unix_nano u)"

definition After :: "Time \<Rightarrow> Time \<Rightarrow> bool" where
  "After t u = (unix_nano t > unix_nano u)"

text \<open>
  The calendar fields of a time are computed as Go's \<^verbatim>\<open>time\<close> package computes them. The
  seconds of the instant, shifted by the offset of the time's own location, are counted
  from the package's absolute zero (1 January of the year -292277022399, which is
  9223372028715321600 seconds, or 106751991073094 days, before 1970-01-01) in an
  unsigned 64-bit integer, so the count wraps modulo \<open>2^64\<close>; the fields are those of the
  proleptic Gregorian date of the day that count falls in. For the times that lie after
  the absolute zero this is the date of the instant; \<^verbatim>\<open>time.Unix(math.MinInt64, 0)\<close> lies
  before it and the wrapped count gives 4 December 292277026596. \<open>civil\<close> turns a day
  count relative to 1970-01-01 into (year, month, day of the month).
\<close>

definition civil :: "int \<Rightarrow> int \<times> int \<times> int" where
  "civil days =
     (let z = days + 719468;
          era = z div 146097;
          doe = z mod 146097;
          yoe = (doe - doe div 1460 + doe div 36524 - doe div 146096) div 365;
          doy = doe - (365 * yoe + yoe div 4 - yoe div 100);
          mp = (5 * doy + 2) div 153;
          d = doy - (153 * mp + 2) div 5 + 1;
          m = (if mp < 10 then mp + 3 else mp - 9);
          y = yoe + era * 400 + (if m \<le> 2 then 1 else 0)
      in (y, m, d))"

definition abs_seconds :: "Time \<Rightarrow> int" where
  "abs_seconds t =
     (unix_sec t + loc_offset t (unix_sec t) + 9223372028715321600) mod 2 ^ 64"

definition local_days :: "Time \<Rightarrow> int" where
  "local_days t = abs_seconds t div 86400 - 106751991073094"

definition Year :: "Time \<Rightarrow> int" where
  "Year t = fst (civil (local_days t))"

definition Month :: "Time \<Rightarrow> int" where
  "Month t = fst (snd (civil (local_days t)))"

definition Day :: "Time \<Rightarrow> int" where
  "Day t = snd (snd (civil (local_days t)))"

definition UTC :: "int \<Rightarrow> int" where
  "UTC s = 0"

definition FixedZone :: "int \<Rightarrow> int \<Rightarrow> int" where
  "FixedZone off s = off"

section \<open>Daylight evaluation\<close>

text \<open>
  \<^verbatim>\<open>func Daylight(sunrise time.Time, sunset time.Time, t time.Time) bool\<close>
  (the same in both versions of the program).
\<close>

definition Daylight :: "Time \<Rightarrow> Time \<Rightarrow> Time \<Rightarrow> bool" where
  "Daylight sunrise sunset t =
     (if Before t sunrise \<or> After t sunset then False else True)"

section \<open>Configuration\<close>

text \<open>
  The configuration structs of the current program. \<^verbatim>\<open>FlushInterval\<close> is a \<^verbatim>\<open>uint\<close>
  (64 bits on the platforms the program is built for).
\<close>

record InfluxDB =
  Address :: string
  Username :: string
  Password :: string
  MeasurementPrefix :: string
  Database :: string
  RetentionPolicy :: string
  Token :: string
  Organization :: string
  Bucket :: string
  SkipVerifySsl :: bool
  FlushInterval :: "64 word"

record Configuration =
  Latitude :: float64
  Longitude :: float64
  PollInterval :: Duration
  InfluxDB :: InfluxDB

section \<open>Connecting to the sink\<close>

datatype error = InfluxWriteConfigError

record Options =
  flushInterval :: "64 word"
  insecureSkipVerify :: bool

record Client =
  serverURL :: string
  authToken :: string
  options :: Options

record WriteAPI =
  org :: string
  bucket :: string

text \<open>
  \<^verbatim>\<open>func InfluxConnect(config *Configuration) (influx.Client, influxAPI.WriteAPI, error)\<close>.
  The configuration is passed by pointer and may be written, so the model returns the
  result together with the configuration as it is after the call.
\<close>

definition InfluxConnect ::
  "Configuration \<Rightarrow> (error + Client \<times> WriteAPI) \<times> Configuration" where
  "InfluxConnect config =
     (let auth =
            (if Token (InfluxDB config) \<noteq> [] then Token (InfluxDB config)
             else if Username (InfluxDB config) \<noteq> [] \<and> Password (InfluxDB config) \<noteq> []
               then Username (InfluxDB config) @ '':'' @ Password (InfluxDB config)
             else []);
          writeDest =
            (if Bucket (InfluxDB config) \<noteq> [] then Some (Bucket (InfluxDB config))
             else if Database (InfluxDB config) \<noteq> [] \<and> RetentionPolicy (InfluxDB config) \<noteq> []
               then Some (Database (InfluxDB config) @ ''/'' @ RetentionPolicy (InfluxDB config))
             else None)
      in case writeDest of
           None \<Rightarrow> (Inl InfluxWriteConfigError, config)
         | Some dest \<Rightarrow>
             let config' =
                   (if FlushInterval (InfluxDB config) = 0
                    then config\<lparr>InfluxDB := (InfluxDB config)\<lparr>FlushInterval := 30\<rparr>\<rparr>
                    else config);
                 opts = \<lparr>flushInterval = 1000 * FlushInterval (InfluxDB config'),
                          insecureSkipVerify = SkipVerifySsl (InfluxDB config')\<rparr>;
                 client = \<lparr>serverURL = Address (InfluxDB config'), authToken = auth,
                            options = opts\<rparr>;
                 writeAPI = \<lparr>org = Organization (InfluxDB config'), bucket = dest\<rparr>
             in (Inr (client, writeAPI), config'))"

section \<open>The outside world\<close>

text \<open>
  The sunrise calculator (an imported library) is a parameter: a function of latitude,
  longitude, year, month and day returning the sunrise and sunset instants. The sink
  is an external service; what the program does to it is recorded as the sequence of
  calls it makes. The calls made to the calculator are recorded too.
\<close>

type_synonym calculator = "float64 \<Rightarrow> float64 \<Rightarrow> int \<Rightarrow> int \<Rightarrow> int \<Rightarrow> Time \<times> Time"

datatype field_value = BoolField bool

record Point =
  Measurement :: string
  Tags :: "string \<rightharpoonup> string"
  Fields :: "string \<rightharpoonup> field_value"
  Timestamp :: Time

record Point_v1 = Point +
  Precision :: string

record BatchPoints =
  Points :: "Point_v1 list"
  BatchDatabase :: string
  BatchRetentionPolicy :: string

datatype event = WritePoint Point | WriteBatch BatchPoints | Flush | Close

record World =
  calc_calls :: "(float64 \<times> float64 \<times> int \<times> int \<times> int) list"
  sink :: "event list"

section \<open>Refreshing the cached window\<close>

text \<open>
  \<^verbatim>\<open>func UpdateSunriseSunset(config Configuration, currentSunrise time.Time,
    currentSunset time.Time, t time.Time) (time.Time, time.Time)\<close>
\<close>

definition UpdateSunriseSunset ::
  "calculator \<Rightarrow> Configuration \<Rightarrow> Time \<Rightarrow> Time \<Rightarrow> Time \<Rightarrow> World \<Rightarrow> (Time \<times> Time) \<times> World" where
  "UpdateSunriseSunset calc config currentSunrise currentSunset t w =
     (if Day currentSunrise = Day (Add t (- 24 * Hour))
         \<or> Day currentSunset = Day (Add t (- 24 * Hour))
      then (calc (Latitude config) (Longitude config) (Year t) (Month t) (Day t),
            w\<lparr>calc_calls := calc_calls w @
                 [(Latitude config, Longitude config, Year t, Month t, Day t)]\<rparr>)
      else ((currentSunrise, currentSunset), w))"

section \<open>Submitting a sample\<close>

text \<open>
  \<^verbatim>\<open>func WriteToInflux(config Configuration, writeAPI influxAPI.WriteAPI, daylight bool,
    t time.Time)\<close>
\<close>

definition WriteToInflux :: "Configuration \<Rightarrow> WriteAPI \<Rightarrow> bool \<Rightarrow> Time \<Rightarrow> World \<Rightarrow> World" where
  "WriteToInflux config writeAPI daylight t w =
     (let data = \<lparr>Measurement = ''daylight'',
                  Tags = Map.empty,
                  Fields = [''daylight'' \<mapsto> BoolField daylight],
                  Timestamp = t\<rparr>
      in w\<lparr>sink := sink w @ [WritePoint data]\<rparr>)"

section \<open>The poll loop\<close>

text \<open>
  The elapsed time of a cycle is the difference of two \<^verbatim>\<open>int32(time.Now().Unix())\<close>
  values, computed in \<^verbatim>\<open>int32\<close>; the argument of \<^verbatim>\<open>time.Sleep\<close> is
  \<^verbatim>\<open>config.PollInterval*time.Second - time.Duration(timeElapsed)*time.Second\<close>,
  computed in \<^verbatim>\<open>int64\<close>. Both versions of the program contain these expressions.
  \<^verbatim>\<open>time.Sleep\<close> returns at once for a zero or negative duration; \<open>Sleep\<close> is the pause
  requested from it, in nanoseconds.
\<close>

definition int32 :: "64 word \<Rightarrow> 32 word" where
  "int32 x = ucast x"

definition timeElapsed :: "Time \<Rightarrow> Time \<Rightarrow> 32 word" where
  "timeElapsed t_start t_end = int32 (Unix t_end) - int32 (Unix t_start)"

definition sleepArg :: "Duration \<Rightarrow> 32 word \<Rightarrow> Duration" where
  "sleepArg pollInterval elapsed = pollInterval * Second - scast elapsed * Second"

definition Sleep :: "Duration \<Rightarrow> int" where
  "Sleep d = (if sint d \<le> 0 then 0 else sint d)"

text \<open>
  One iteration of the loop body. The three calls of \<^verbatim>\<open>time.Now()\<close> in an iteration are
  inputs: the reading stored (as seconds) in \<^verbatim>\<open>pollStartTime\<close>, the reading \<^verbatim>\<open>now\<close> that
  is evaluated and submitted, and the reading taken after the submission.
\<close>

record Readings =
  at_start :: Time
  at_now :: Time
  at_end :: Time

definition pollCycle ::
  "calculator \<Rightarrow> Configuration \<Rightarrow> WriteAPI \<Rightarrow> Time \<times> Time \<Rightarrow> Readings \<Rightarrow> World
     \<Rightarrow> (Time \<times> Time) \<times> Duration \<times> World" where
  "pollCycle calc config writeAPI win r w =
     (let now = at_now r;
          upd = UpdateSunriseSunset calc config (fst win) (snd win) now w;
          sunriseTime = fst (fst upd);
          sunsetTime = snd (fst upd);
          daylight = Daylight sunriseTime sunsetTime now;
          w' = WriteToInflux config writeAPI daylight now (snd upd)
      in ((sunriseTime, sunsetTime),
          sleepArg (PollInterval config) (timeElapsed (at_start r) (at_end r)),
          w'))"

text \<open>
  The loop itself never ends; it is run here for as many iterations as there are
  clock readings. It returns the cached window, the pauses requested after each
  iteration and the world.
\<close>

fun pollLoop ::
  "calculator \<Rightarrow> Configuration \<Rightarrow> WriteAPI \<Rightarrow> Time \<times> Time \<Rightarrow> Readings list \<Rightarrow> World
     \<Rightarrow> (Time \<times> Time) \<times> int list \<times> World" where
  "pollLoop calc config writeAPI win [] w = (win, [], w)"
| "pollLoop calc config writeAPI win (r # rs) w =
     (case pollCycle calc config writeAPI win r w of
        (win', d, w') \<Rightarrow>
          (case pollLoop calc config writeAPI win' rs w' of
             (win'', ds, w'') \<Rightarrow> (win'', Sleep d # ds, w'')))"

section \<open>Start-up and shutdown\<close>

text \<open>
  \<^verbatim>\<open>main\<close> connects to the sink (a failure is fatal), computes the first window from
  the clock, starts the poll loop in a goroutine of its own and blocks until a
  termination signal arrives. It then calls \<^verbatim>\<open>writeAPI.Flush()\<close> and returns, which runs
  the deferred \<^verbatim>\<open>writeAPI.Flush()\<close> and \<^verbatim>\<open>influxClient.Close()\<close>, in that order; when the
  call of \<^verbatim>\<open>Close\<close> has returned the process ends. The poll goroutine is never told to
  stop: it runs until the process ends, also while \<^verbatim>\<open>Close\<close> is running. The state of
  the process is the position of \<^verbatim>\<open>main\<close>, the cached window and the world.
\<close>

datatype main_pc = AwaitSignal | Caught | Returning | DeferredFlushDone | Closing | Exited

record Proc =
  pc :: main_pc
  window :: "Time \<times> Time"
  world :: World

definition start ::
  "calculator \<Rightarrow> Configuration \<Rightarrow> Time \<Rightarrow> error + Configuration \<times> WriteAPI \<times> Proc" where
  "start calc config now =
     (case InfluxConnect config of
        (Inl err, _) \<Rightarrow> Inl err
      | (Inr (influxClient, writeAPI), config') \<Rightarrow>
          Inr (config', writeAPI,
               \<lparr>pc = AwaitSignal,
                window = calc (Latitude config') (Longitude config') (Year now) (Month now) (Day now),
                world = \<lparr>calc_calls = [(Latitude config', Longitude config',
                                           Year now, Month now, Day now)],
                          sink = []\<rparr>\<rparr>))"

text \<open>
  What can happen next: a termination signal is delivered, \<^verbatim>\<open>main\<close> takes its next
  step, or the poll goroutine runs one iteration with the given clock readings.
  \<open>exec\<close> gives the state after the action, or \<open>None\<close> when the action cannot happen:
  \<^verbatim>\<open>main\<close> cannot move while it waits for the signal, and the process that has ended
  takes no action. Only the first signal is ever received from the channel. The steps
  of \<^verbatim>\<open>main\<close> after the signal are: the call of \<^verbatim>\<open>Flush\<close>, the deferred call of \<^verbatim>\<open>Flush\<close>, the
  deferred call of \<^verbatim>\<open>Close\<close>, and the return of that call, which ends the process.
\<close>

datatype action = Signal | Main | Poll Readings

definition exec ::
  "calculator \<Rightarrow> Configuration \<Rightarrow> WriteAPI \<Rightarrow> Proc \<Rightarrow> action \<Rightarrow> Proc option" where
  "exec calc config writeAPI p a =
     (if pc p = Exited then None
      else case a of
        Signal \<Rightarrow> Some (if pc p = AwaitSignal then p\<lparr>pc := Caught\<rparr> else p)
      | Main \<Rightarrow>
          (case pc p of
             AwaitSignal \<Rightarrow> None
           | Caught \<Rightarrow>
               Some (p\<lparr>pc := Returning,
                       world := (world p)\<lparr>sink := sink (world p) @ [Flush]\<rparr>\<rparr>)
           | Returning \<Rightarrow>
               Some (p\<lparr>pc := DeferredFlushDone,
                       world := (world p)\<lparr>sink := sink (world p) @ [Flush]\<rparr>\<rparr>)
           | DeferredFlushDone \<Rightarrow>
               Some (p\<lparr>pc := Closing,
                       world := (world p)\<lparr>sink := sink (world p) @ [Close]\<rparr>\<rparr>)
           | Closing \<Rightarrow> Some (p\<lparr>pc := Exited\<rparr>)
           | Exited \<Rightarrow> None)
      | Poll r \<Rightarrow>
          (case pollCycle calc config writeAPI (window p) r (world p) of
             (win', d, w') \<Rightarrow> Some (p\<lparr>window := win', world := w'\<rparr>)))"

fun run ::
  "calculator \<Rightarrow> Configuration \<Rightarrow> WriteAPI \<Rightarrow> Proc \<Rightarrow> action list \<Rightarrow> Proc option" where
  "run calc config writeAPI p [] = Some p"
| "run calc config writeAPI p (a # as) =
     (case exec calc config writeAPI p a of
        None \<Rightarrow> None
      | Some p' \<Rightarrow> run calc config writeAPI p' as)"

definition flush_calls :: "event list \<Rightarrow> nat" where
  "flush_calls es = length (filter (\<lambda>e. e = Flush) es)"

fun is_write :: "event \<Rightarrow> bool" where
  "is_write (WritePoint p) = True"
| "is_write (WriteBatch b) = True"
| "is_write Flush = False"
| "is_write Close = False"

section \<open>The earlier version of the program\<close>

text \<open>
  The earlier version writes through the version 1 client, one batch of one point per
  cycle, synchronously; the connection is a function from the batch to the error it
  answers with, if any. It has no signal handling. Its \<^verbatim>\<open>UpdateSunriseSunset\<close> differs
  from the current one by a log line only.
\<close>

record Configuration_v1 =
  Latitude_v1 :: float64
  Longitude_v1 :: float64
  PollInterval_v1 :: Duration
  InfluxDBURL :: string
  InfluxDBPort :: int
  InfluxDBMeasurement :: string
  InfluxDBDatabase :: string
  InfluxDBRetentionPolicy :: string
  InfluxDBSkipVerifySsl :: bool

type_synonym InfluxConn = "BatchPoints \<Rightarrow> string option"

definition UpdateSunriseSunset_v1 ::
  "calculator \<Rightarrow> Configuration_v1 \<Rightarrow> Time \<Rightarrow> Time \<Rightarrow> Time \<Rightarrow> World \<Rightarrow> (Time \<times> Time) \<times> World" where
  "UpdateSunriseSunset_v1 calc config currentSunrise currentSunset t w =
     (if Day currentSunrise = Day (Add t (- 24 * Hour))
         \<or> Day currentSunset = Day (Add t (- 24 * Hour))
      then (calc (Latitude_v1 config) (Longitude_v1 config) (Year t) (Month t) (Day t),
            w\<lparr>calc_calls := calc_calls w @
                 [(Latitude_v1 config, Longitude_v1 config, Year t, Month t, Day t)]\<rparr>)
      else ((currentSunrise, currentSunset), w))"

definition WriteToInflux_v1 ::
  "Configuration_v1 \<Rightarrow> InfluxConn \<Rightarrow> bool \<Rightarrow> Time \<Rightarrow> World \<Rightarrow> string option \<times> World" where
  "WriteToInflux_v1 config influxConn daylight t w =
     (let data = [\<lparr>Measurement = InfluxDBMeasurement config,
                   Tags = Map.empty,
                   Fields = [''daylight'' \<mapsto> BoolField daylight],
                   Timestamp = t,
                   Precision = ''ns''\<rparr>];
          batchData = \<lparr>Points = data,
                       BatchDatabase = InfluxDBDatabase config,
                       BatchRetentionPolicy = InfluxDBRetentionPolicy config\<rparr>
      in (influxConn batchData, w\<lparr>sink := sink w @ [WriteBatch batchData]\<rparr>))"

definition pollCycle_v1 ::
  "calculator \<Rightarrow> Configuration_v1 \<Rightarrow> InfluxConn \<Rightarrow> Time \<times> Time \<Rightarrow> Readings \<Rightarrow> World
     \<Rightarrow> (Time \<times> Time) \<times> Duration \<times> World" where
  "pollCycle_v1 calc config influxConn win r w =
     (let now = at_now r;
          upd = UpdateSunriseSunset_v1 calc config (fst win) (snd win) now w;
          sunriseTime = fst (fst upd);
          sunsetTime = snd (fst upd);
          daylight = Daylight sunriseTime sunsetTime now;
          wr = WriteToInflux_v1 config influxConn daylight now (snd upd)
      in ((sunriseTime, sunsetTime),
          sleepArg (PollInterval_v1 config) (timeElapsed (at_start r) (at_end r)),
          snd wr))"

section \<open>The refresh by day numbers, and by calendar days\<close>

text \<open>
  Names for what \<^verbatim>\<open>UpdateSunriseSunset\<close> computes: \<open>yesterday now\<close> is \<^verbatim>\<open>t.Add(-24*time.Hour)\<close>,
  the instant 24 hours earlier in the same location; \<open>stale\<close> is the condition it
  tests, which compares days of the month (\<^verbatim>\<open>Day()\<close>), each time read in its own
  location; \<open>refreshIfStale\<close> is the window it answers with.
\<close>

definition yesterday :: "Time \<Rightarrow> Time" where
  "yesterday now = now\<lparr>unix_nano := unix_nano now - 86400000000000\<rparr>"

definition stale :: "Time \<times> Time \<Rightarrow> Time \<Rightarrow> bool" where
  "stale current now =
     (Day (fst current) = Day (yesterday now) \<or> Day (snd current) = Day (yesterday now))"

definition refreshIfStale ::
  "calculator \<Rightarrow> float64 \<times> float64 \<Rightarrow> Time \<times> Time \<Rightarrow> Time \<Rightarrow> Time \<times> Time" where
  "refreshIfStale calc location current now =
     (if stale current now
      then calc (fst location) (snd location) (Year now) (Month now) (Day now)
      else current)"

text \<open>
  The specification words the refresh with calendar days: the cached window is stale
  when the calendar day of its sunrise or of its sunset equals the calendar day of
  \<open>now - 24h\<close>; a stale window is replaced by the calculator's answer for the year,
  month and day of \<open>now\<close>, any other window is returned as it is. A calendar day is a
  date: year, month and day of the month.
\<close>

definition calendarDay :: "Time \<Rightarrow> int \<times> int \<times> int" where
  "calendarDay t = (Year t, Month t, Day t)"

definition stale_by_date :: "Time \<times> Time \<Rightarrow> Time \<Rightarrow> bool" where
  "stale_by_date current now =
     (calendarDay (fst current) = calendarDay (yesterday now)
      \<or> calendarDay (snd current) = calendarDay (yesterday now))"

definition refreshIfStale_by_date ::
  "calculator \<Rightarrow> float64 \<times> float64 \<Rightarrow> Time \<times> Time \<Rightarrow> Time \<Rightarrow> Time \<times> Time" where
  "refreshIfStale_by_date calc location current now =
     (if stale_by_date current now
      then calc (fst location) (snd location) (Year now) (Month now) (Day now)
      else current)"

section \<open>Example inputs\<close>

text \<open>
  A calculator given by a table of its answers per date; for any other date it
  answers with the zero time twice (0001-01-01T00:00:00Z).
\<close>

definition zero_Time :: Time where
  "zero_Time = \<lparr>unix_nano = - 62135596800000000000, loc_offset = UTC\<rparr>"

definition table_calc :: "((int \<times> int \<times> int) \<times> (Time \<times> Time)) list \<Rightarrow> calculator" where
  "table_calc tab lat lon y m d =
     (case map_of tab (y, m, d) of Some win \<Rightarrow> win | None \<Rightarrow> (zero_Time, zero_Time))"

text \<open>
  Boulder, Colorado (40.0, -105.0), on 2021-06-01, local time UTC-6: sunrise at 06:30
  and sunset at 19:45 local time, as instants in UTC, and the same for the day before;
  local clock readings at 06:44, 06:45, 12:00, 19:15 and 19:16.
\<close>

definition MDT :: "int \<Rightarrow> int" where
  "MDT = FixedZone (- 21600)"

definition sunrise_0630 :: Time where
  "sunrise_0630 = \<lparr>unix_nano = 1622550600000000000, loc_offset = UTC\<rparr>"

definition sunset_1945 :: Time where
  "sunset_1945 = \<lparr>unix_nano = 1622598300000000000, loc_offset = UTC\<rparr>"

definition sunrise_may31 :: Time where
  "sunrise_may31 = \<lparr>unix_nano = 1622464200000000000, loc_offset = UTC\<rparr>"

definition sunset_may31 :: Time where
  "sunset_may31 = \<lparr>unix_nano = 1622511900000000000, loc_offset = UTC\<rparr>"

definition at_0644 :: Time where
  "at_0644 = \<lparr>unix_nano = 1622551440000000000, loc_offset = MDT\<rparr>"

definition at_0645 :: Time where
  "at_0645 = \<lparr>unix_nano = 1622551500000000000, loc_offset = MDT\<rparr>"

definition at_1200 :: Time where
  "at_1200 = \<lparr>unix_nano = 1622570400000000000, loc_offset = MDT\<rparr>"

definition at_1915 :: Time where
  "at_1915 = \<lparr>unix_nano = 1622596500000000000, loc_offset = MDT\<rparr>"

definition at_1916 :: Time where
  "at_1916 = \<lparr>unix_nano = 1622596560000000000, loc_offset = MDT\<rparr>"

text \<open>
  The window of 1 May (a month earlier), the window of 2 June, and the clock reading
  at 10:00 local time on 2 June.
\<close>

definition sunrise_may1 :: Time where
  "sunrise_may1 = \<lparr>unix_nano = 1619872200000000000, loc_offset = UTC\<rparr>"

definition sunset_may1 :: Time where
  "sunset_may1 = \<lparr>unix_nano = 1619919900000000000, loc_offset = UTC\<rparr>"

definition sunrise_jun2 :: Time where
  "sunrise_jun2 = \<lparr>unix_nano = 1622637000000000000, loc_offset = UTC\<rparr>"

definition sunset_jun2 :: Time where
  "sunset_jun2 = \<lparr>unix_nano = 1622684700000000000, loc_offset = UTC\<rparr>"

definition at_jun2_1000 :: Time where
  "at_jun2_1000 = \<lparr>unix_nano = 1622649600000000000, loc_offset = MDT\<rparr>"

definition boulder_calc :: calculator where
  "boulder_calc =
     table_calc [((2021, 6, 1), (sunrise_0630, sunset_1945)),
                 ((2021, 6, 2), (sunrise_jun2, sunset_jun2))]"

text \<open>The time \<^verbatim>\<open>time.Unix(math.MinInt64, 0)\<close> in UTC.\<close>

definition min_Time :: Time where
  "min_Time = \<lparr>unix_nano = - 9223372036854775808000000000, loc_offset = UTC\<rparr>"

definition boulder_influx :: InfluxDB where
  "boulder_influx =
     \<lparr>Address = ''https://127.0.0.1:8086'', Username = [], Password = [],
      MeasurementPrefix = ''prefix_'', Database = [], RetentionPolicy = [],
      Token = ''mytoken'', Organization = ''myorg'', Bucket = ''mybucket'',
      SkipVerifySsl = False, FlushInterval = 0\<rparr>"

definition boulder_config :: Configuration where
  "boulder_config =
     \<lparr>Latitude = 0x4044000000000000, Longitude = 0xC05A400000000000,
      PollInterval = 60, InfluxDB = boulder_influx\<rparr>"

definition empty_world :: World where
  "empty_world = \<lparr>calc_calls = [], sink = []\<rparr>"

text \<open>
  Sydney (-33.87, 151.21), local time UTC+10. The sun rises there on 2021-06-02 at
  06:50 local time, which is 20:50 on 2021-06-01 in UTC, and sets at 16:55 local time;
  the day before likewise. The clock reading is 08:00 local time on 2021-06-02.
\<close>

definition AEST :: "int \<Rightarrow> int" where
  "AEST = FixedZone 36000"

definition sydney_sunrise_jun1 :: Time where
  "sydney_sunrise_jun1 = \<lparr>unix_nano = 1622494200000000000, loc_offset = UTC\<rparr>"

definition sydney_sunset_jun1 :: Time where
  "sydney_sunset_jun1 = \<lparr>unix_nano = 1622530500000000000, loc_offset = UTC\<rparr>"

definition sydney_sunrise_jun2 :: Time where
  "sydney_sunrise_jun2 = \<lparr>unix_nano = 1622580600000000000, loc_offset = UTC\<rparr>"

definition sydney_sunset_jun2 :: Time where
  "sydney_sunset_jun2 = \<lparr>unix_nano = 1622616900000000000, loc_offset = UTC\<rparr>"

definition sydney_0800 :: Time where
  "sydney_0800 = \<lparr>unix_nano = 1622584800000000000, loc_offset = AEST\<rparr>"

definition sydney_calc :: calculator where
  "sydney_calc = table_calc [((2021, 6, 2), (sydney_sunrise_jun2, sydney_sunset_jun2))]"

definition sydney_config :: Configuration where
  "sydney_config =
     \<lparr>Latitude = 0xC040EF5C28F5C28F, Longitude = 0x4062E6B851EB851F,
      PollInterval = 60, InfluxDB = boulder_influx\<rparr>"

text \<open>
  Clock readings of poll cycles that start at 06:44:00 in Boulder: one that ends
  within the same second, one that takes 5 seconds and one that takes 65 seconds;
  and a cycle of one nanosecond, from 06:44:00.999999999 to 06:44:01.
  Then two cycles of 5 seconds late in time: one wholly after Unix second \<open>2^31\<close>
  and one that starts in the last second before it.
\<close>

definition at_0644_same_second :: Time where
  "at_0644_same_second = \<lparr>unix_nano = 1622551440999999999, loc_offset = MDT\<rparr>"

definition at_064405 :: Time where
  "at_064405 = \<lparr>unix_nano = 1622551445000000000, loc_offset = MDT\<rparr>"

definition at_064505 :: Time where
  "at_064505 = \<lparr>unix_nano = 1622551505000000000, loc_offset = MDT\<rparr>"

definition at_064401 :: Time where
  "at_064401 = \<lparr>unix_nano = 1622551441000000000, loc_offset = MDT\<rparr>"

definition cycle_1ns :: Readings where
  "cycle_1ns =
     \<lparr>at_start = at_0644_same_second, at_now = at_0644_same_second, at_end = at_064401\<rparr>"

definition cycle_same_second :: Readings where
  "cycle_same_second = \<lparr>at_start = at_0644, at_now = at_0644, at_end = at_0644_same_second\<rparr>"

definition cycle_5s :: Readings where
  "cycle_5s = \<lparr>at_start = at_0644, at_now = at_0644, at_end = at_064405\<rparr>"

definition cycle_65s :: Readings where
  "cycle_65s = \<lparr>at_start = at_0644, at_now = at_0644, at_end = at_064505\<rparr>"





text \<open>
  Clock readings at Unix second 0 and at Unix second \<open>2^31\<close>, as a clock that is set
  forward during a cycle gives them.
\<close>

definition unix_epoch :: Time where
  "unix_epoch = \<lparr>unix_nano = 0, loc_offset = UTC\<rparr>"

definition at_2_31 :: Time where
  "at_2_31 = \<lparr>unix_nano = 2147483648000000000, loc_offset = UTC\<rparr>"

definition cycle_clock_set :: Readings where
  "cycle_clock_set = \<lparr>at_start = unix_epoch, at_now = unix_epoch, at_end = at_2_31\<rparr>"

text \<open>
  The process in Boulder once it has started at 06:44, the same with a poll interval
  of 9223372042 seconds, and a configuration without a write destination.
\<close>

definition boulder_api :: WriteAPI where
  "boulder_api = \<lparr>org = ''myorg'', bucket = ''mybucket''\<rparr>"

definition boulder_running :: Configuration where
  "boulder_running = boulder_config\<lparr>InfluxDB := boulder_influx\<lparr>FlushInterval := 30\<rparr>\<rparr>"

definition long_interval :: Configuration where
  "long_interval = boulder_running\<lparr>PollInterval := 9223372042\<rparr>"

definition boulder_proc :: Proc where
  "boulder_proc =
     \<lparr>pc = AwaitSignal,
      window = (sunrise_0630, sunset_1945),
      world = \<lparr>calc_calls = [(0x4044000000000000, 0xC05A400000000000, 2021, 6, 1)],
                sink = []\<rparr>\<rparr>"

definition no_destination :: Configuration where
  "no_destination =
     boulder_config\<lparr>InfluxDB := boulder_influx\<lparr>Bucket := [], Database := ''mydb''\<rparr>\<rparr>"

text \<open>A configuration of the earlier version that names its measurement \<open>sun\<close>.\<close>

definition sun_config :: Configuration_v1 where
  "sun_config =
     \<lparr>Latitude_v1 = 0x4044000000000000, Longitude_v1 = 0xC05A400000000000,
      PollInterval_v1 = 60, InfluxDBURL = ''http://127.0.0.1'', InfluxDBPort = 8086,
      InfluxDBMeasurement = ''sun'', InfluxDBDatabase = ''mydb'',
      InfluxDBRetentionPolicy = ''autogen'', InfluxDBSkipVerifySsl = False\<rparr>"

definition accepting_conn :: InfluxConn where
  "accepting_conn batch = None"

section \<open>Facts about the example inputs\<close>

lemma Day_at_0644: "Year at_0644 = 2021 \<and> Month at_0644 = 6 \<and> Day at_0644 = 1"
  by code_simp

lemma Day_yesterday_at_0644: "Day (yesterday at_0644) = 31"
  by code_simp

lemma Day_boulder_windows:
  "Day sunrise_may31 = 31 \<and> Day sunset_may31 = 1 \<and> Day sunrise_0630 = 1 \<and> Day sunset_1945 = 2"
  by code_simp

lemma Day_sydney_0800:
  "Year sydney_0800 = 2021 \<and> Month sydney_0800 = 6 \<and> Day sydney_0800 = 2
     \<and> Day (yesterday sydney_0800) = 1"
  by code_simp

lemma Day_sydney_windows:
  "Day sydney_sunrise_jun1 = 31 \<and> Day sydney_sunset_jun1 = 1
     \<and> Day sydney_sunrise_jun2 = 1 \<and> Day sydney_sunset_jun2 = 2"
  by code_simp

lemma boulder_calc_jun1: "boulder_calc lat lon 2021 6 1 = (sunrise_0630, sunset_1945)"
  by (simp add: boulder_calc_def table_calc_def)

lemma sydney_calc_jun2: "sydney_calc lat lon 2021 6 2 = (sydney_sunrise_jun2, sydney_sunset_jun2)"
  by (simp add: sydney_calc_def table_calc_def)

lemma Day_at_jun2_1000:
  "Year at_jun2_1000 = 2021 \<and> Month at_jun2_1000 = 6 \<and> Day at_jun2_1000 = 2"
  by code_simp

lemma calendarDay_may1:
  "calendarDay sunrise_may1 = (2021, 5, 1)"
  "calendarDay sunset_may1 = (2021, 5, 2)"
  "calendarDay (yesterday at_jun2_1000) = (2021, 6, 1)"
  by code_simp+

lemma calendarDay_boulder:
  "calendarDay sunrise_may31 = (2021, 5, 31)"
  "calendarDay (yesterday at_0644) = (2021, 5, 31)"
  by code_simp+

lemma date_min_Time:
  "Year min_Time = 292277026596 \<and> Month min_Time = 12 \<and> Day min_Time = 4"
  by code_simp

lemma stale_min_Time: "stale (min_Time, min_Time) now \<longleftrightarrow> Day (yesterday now) = 4"
  using date_min_Time by (simp add: stale_def)

lemma boulder_calc_jun2: "boulder_calc lat lon 2021 6 2 = (sunrise_jun2, sunset_jun2)"
  by (simp add: boulder_calc_def table_calc_def)

section \<open>Daylight evaluation\<close>

lemma Daylight_iff:
  "Daylight sunrise sunset t \<longleftrightarrow> unix_nano sunrise \<le> unix_nano t \<and> unix_nano t \<le> unix_nano sunset"
  by (auto simp: Daylight_def Before_def After_def)

text \<open>
  C4. For every window and every timestamp the evaluator returns a boolean (it is a
  total function): true exactly when the timestamp lies in the closed interval from
  sunrise to sunset, both bounds included; when sunrise is later than sunset it is
  false for every timestamp.
\<close>

theorem Daylight_closed_interval:
  "(Daylight sunrise sunset t \<longleftrightarrow>
      unix_nano sunrise \<le> unix_nano t \<and> unix_nano t \<le> unix_nano sunset)
   \<and> Daylight sunrise sunset sunrise = (unix_nano sunrise \<le> unix_nano sunset)
   \<and> Daylight sunrise sunset sunset = (unix_nano sunrise \<le> unix_nano sunset)
   \<and> (unix_nano sunset < unix_nano sunrise \<longrightarrow> \<not> Daylight sunrise sunset t)"
  by (auto simp: Daylight_iff)

theorem Daylight_closed_interval_witness:
  "unix_nano sunrise_0630 < unix_nano sunset_1945
   \<and> \<not> Daylight sunset_1945 sunrise_0630 at_1200
   \<and> Daylight sunrise_0630 sunset_1945 at_1200
   \<and> Daylight sunrise_0630 sunset_1945 sunrise_0630
   \<and> Daylight sunrise_0630 sunset_1945 sunset_1945"
  using Daylight_closed_interval [of sunset_1945 sunrise_0630 at_1200]
    Daylight_closed_interval [of sunrise_0630 sunset_1945 at_1200]
  by (simp add: sunrise_0630_def sunset_1945_def at_1200_def)

text \<open>
  C7. For a fixed window the evaluator is monotonic in time: the timestamps it
  accepts form one contiguous interval. Between two accepted timestamps every
  timestamp is accepted, so the result never goes from true to false and back.
\<close>

theorem Daylight_contiguous:
  assumes "unix_nano t1 \<le> unix_nano t2" and "unix_nano t2 \<le> unix_nano t3"
    and "Daylight sunrise sunset t1" and "Daylight sunrise sunset t3"
  shows "Daylight sunrise sunset t2"
  using assms by (simp add: Daylight_iff)

theorem Daylight_contiguous_witness:
  "unix_nano at_0645 \<le> unix_nano at_1200 \<and> unix_nano at_1200 \<le> unix_nano at_1915
   \<and> Daylight sunrise_0630 sunset_1945 at_0645 \<and> Daylight sunrise_0630 sunset_1945 at_1915
   \<and> Daylight sunrise_0630 sunset_1945 at_1200"
proof -
  have a: "unix_nano at_0645 \<le> unix_nano at_1200"
    by (simp add: at_0645_def at_1200_def)
  have b: "unix_nano at_1200 \<le> unix_nano at_1915"
    by (simp add: at_1200_def at_1915_def)
  have c: "Daylight sunrise_0630 sunset_1945 at_0645"
    by (simp add: Daylight_iff sunrise_0630_def sunset_1945_def at_0645_def)
  have d: "Daylight sunrise_0630 sunset_1945 at_1915"
    by (simp add: Daylight_iff sunrise_0630_def sunset_1945_def at_1915_def)
  from Daylight_contiguous [OF a b c d] a b c d show ?thesis by simp
qed

text \<open>
  C1. The evaluation has no offset: neither the configuration nor the evaluator has a
  place for one. With sunrise at 06:30 and sunset at 19:45 the evaluation at 06:44 is
  true, and so is the one at 19:16, whatever the configuration file sets as
  \<^verbatim>\<open>timeOffset\<close>.
\<close>

theorem Daylight_without_offset:
  "Daylight sunrise_0630 sunset_1945 at_0644 = True
   \<and> Daylight sunrise_0630 sunset_1945 at_0645 = True
   \<and> Daylight sunrise_0630 sunset_1945 at_1915 = True
   \<and> Daylight sunrise_0630 sunset_1945 at_1916 = True"
  by (simp add: Daylight_def Before_def After_def sunrise_0630_def sunset_1945_def
      at_0644_def at_0645_def at_1915_def at_1916_def)

section \<open>Refreshing the cached window\<close>

lemma Add_minus_24h: "Add t (- 24 * Hour) = yesterday t"
  by (simp add: Add_def yesterday_def Hour_def Second_def)

lemma UpdateSunriseSunset_eq:
  "UpdateSunriseSunset calc config sr ss now w =
     (if stale (sr, ss) now
      then (calc (Latitude config) (Longitude config) (Year now) (Month now) (Day now),
            w\<lparr>calc_calls := calc_calls w @
                 [(Latitude config, Longitude config, Year now, Month now, Day now)]\<rparr>)
      else ((sr, ss), w))"
  unfolding UpdateSunriseSunset_def stale_def fst_conv snd_conv Add_minus_24h ..

lemma stale_by_date_stale:
  assumes "stale_by_date current now"
  shows "stale current now"
  using assms by (auto simp: stale_by_date_def stale_def calendarDay_def)

text \<open>
  C2. \<^verbatim>\<open>UpdateSunriseSunset\<close> answers with the calculator's window for the year, month
  and day of \<open>now\<close> exactly when the day of the month of the cached sunrise or of the
  cached sunset, each read in its own location, equals the day of the month of
  \<open>now - 24h\<close>, and with the cached window otherwise. The calculator is called once
  in the first case and not at all in the second. A cached sunrise or sunset on the
  calendar day of \<open>now - 24h\<close> is enough for the replacement.
\<close>

theorem UpdateSunriseSunset_day_number:
  "UpdateSunriseSunset calc config sr ss now w =
     (if Day sr = Day (yesterday now) \<or> Day ss = Day (yesterday now)
      then (calc (Latitude config) (Longitude config) (Year now) (Month now) (Day now),
            w\<lparr>calc_calls := calc_calls w @
                 [(Latitude config, Longitude config, Year now, Month now, Day now)]\<rparr>)
      else ((sr, ss), w))
   \<and> yesterday now = Add now (- 24 * Hour)
   \<and> unix_nano (yesterday now) = unix_nano now - 24 * 3600 * 1000000000
   \<and> loc_offset (yesterday now) = loc_offset now
   \<and> (stale_by_date (sr, ss) now \<longrightarrow>
        UpdateSunriseSunset calc config sr ss now w =
          (calc (Latitude config) (Longitude config) (Year now) (Month now) (Day now),
           w\<lparr>calc_calls := calc_calls w @
                [(Latitude config, Longitude config, Year now, Month now, Day now)]\<rparr>))"
proof (intro conjI impI)
  show "UpdateSunriseSunset calc config sr ss now w =
     (if Day sr = Day (yesterday now) \<or> Day ss = Day (yesterday now)
      then (calc (Latitude config) (Longitude config) (Year now) (Month now) (Day now),
            w\<lparr>calc_calls := calc_calls w @
                 [(Latitude config, Longitude config, Year now, Month now, Day now)]\<rparr>)
      else ((sr, ss), w))"
    by (simp add: UpdateSunriseSunset_eq stale_def)
  show "yesterday now = Add now (- 24 * Hour)"
    by (rule Add_minus_24h [symmetric])
  show "unix_nano (yesterday now) = unix_nano now - 24 * 3600 * 1000000000"
    by (simp add: yesterday_def)
  show "loc_offset (yesterday now) = loc_offset now"
    by (simp add: yesterday_def)
next
  assume "stale_by_date (sr, ss) now"
  then have "stale (sr, ss) now"
    by (rule stale_by_date_stale)
  then show "UpdateSunriseSunset calc config sr ss now w =
          (calc (Latitude config) (Longitude config) (Year now) (Month now) (Day now),
           w\<lparr>calc_calls := calc_calls w @
                [(Latitude config, Longitude config, Year now, Month now, Day now)]\<rparr>)"
    by (simp add: UpdateSunriseSunset_eq)
qed

theorem UpdateSunriseSunset_day_number_witness:
  "stale_by_date (sunrise_may31, sunset_may31) at_0644
   \<and> UpdateSunriseSunset boulder_calc boulder_config sunrise_may31 sunset_may31 at_0644 empty_world
       = ((sunrise_0630, sunset_1945),
          \<lparr>calc_calls = [(Latitude boulder_config, Longitude boulder_config, 2021, 6, 1)],
           sink = []\<rparr>)
   \<and> Day sunrise_0630 = 1 \<and> Day sunset_1945 = 2 \<and> Day (yesterday at_0644) = 31
   \<and> UpdateSunriseSunset boulder_calc boulder_config sunrise_0630 sunset_1945 at_0644 empty_world
       = ((sunrise_0630, sunset_1945), empty_world)"
proof -
  have s1: "stale_by_date (sunrise_may31, sunset_may31) at_0644"
    by (simp add: stale_by_date_def calendarDay_boulder)
  have d: "Day sunrise_0630 = 1" "Day sunset_1945 = 2" "Day (yesterday at_0644) = 31"
    by (simp_all add: Day_yesterday_at_0644 Day_boulder_windows)
  from UpdateSunriseSunset_day_number
      [of boulder_calc boulder_config sunrise_may31 sunset_may31 at_0644 empty_world] s1
  have "UpdateSunriseSunset boulder_calc boulder_config sunrise_may31 sunset_may31 at_0644
      empty_world =
        (boulder_calc (Latitude boulder_config) (Longitude boulder_config)
           (Year at_0644) (Month at_0644) (Day at_0644),
         empty_world\<lparr>calc_calls := calc_calls empty_world @
            [(Latitude boulder_config, Longitude boulder_config,
              Year at_0644, Month at_0644, Day at_0644)]\<rparr>)"
    by blast
  then have r1: "UpdateSunriseSunset boulder_calc boulder_config sunrise_may31 sunset_may31
      at_0644 empty_world = ((sunrise_0630, sunset_1945),
          \<lparr>calc_calls = [(Latitude boulder_config, Longitude boulder_config, 2021, 6, 1)],
           sink = []\<rparr>)"
    by (simp add: Day_at_0644 boulder_calc_jun1 empty_world_def)
  from UpdateSunriseSunset_day_number
      [of boulder_calc boulder_config sunrise_0630 sunset_1945 at_0644 empty_world]
  have "UpdateSunriseSunset boulder_calc boulder_config sunrise_0630 sunset_1945 at_0644
      empty_world =
        (if Day sunrise_0630 = Day (yesterday at_0644) \<or> Day sunset_1945 = Day (yesterday at_0644)
         then (boulder_calc (Latitude boulder_config) (Longitude boulder_config)
                 (Year at_0644) (Month at_0644) (Day at_0644),
               empty_world\<lparr>calc_calls := calc_calls empty_world @
                 [(Latitude boulder_config, Longitude boulder_config,
                   Year at_0644, Month at_0644, Day at_0644)]\<rparr>)
         else ((sunrise_0630, sunset_1945), empty_world))"
    by blast
  then have r2: "UpdateSunriseSunset boulder_calc boulder_config sunrise_0630 sunset_1945
      at_0644 empty_world = ((sunrise_0630, sunset_1945), empty_world)"
    by (simp add: d)
  from s1 r1 d r2 show ?thesis by simp
qed

text \<open>
  At 10:00 on 2 June the cached window of 1 May is replaced: its sunrise is on the
  first day of a month, as \<open>now - 24h\<close> is, though not on the same calendar day. The
  refresh by calendar days keeps the window.
\<close>

theorem replaced_on_equal_day_number:
  "calendarDay sunrise_may1 = (2021, 5, 1)
   \<and> calendarDay sunset_may1 = (2021, 5, 2)
   \<and> calendarDay (yesterday at_jun2_1000) = (2021, 6, 1)
   \<and> \<not> stale_by_date (sunrise_may1, sunset_may1) at_jun2_1000
   \<and> refreshIfStale_by_date boulder_calc (Latitude boulder_config, Longitude boulder_config)
        (sunrise_may1, sunset_may1) at_jun2_1000 = (sunrise_may1, sunset_may1)
   \<and> UpdateSunriseSunset boulder_calc boulder_config sunrise_may1 sunset_may1 at_jun2_1000
        empty_world
       = ((sunrise_jun2, sunset_jun2),
          \<lparr>calc_calls = [(Latitude boulder_config, Longitude boulder_config, 2021, 6, 2)],
           sink = []\<rparr>)
   \<and> unix_nano sunrise_jun2 \<noteq> unix_nano sunrise_may1"
proof -
  have n: "\<not> stale_by_date (sunrise_may1, sunset_may1) at_jun2_1000"
    by (simp add: stale_by_date_def calendarDay_may1)
  have s: "stale (sunrise_may1, sunset_may1) at_jun2_1000"
    using calendarDay_may1 by (simp add: stale_def calendarDay_def)
  have u: "UpdateSunriseSunset boulder_calc boulder_config sunrise_may1 sunset_may1 at_jun2_1000
        empty_world
       = ((sunrise_jun2, sunset_jun2),
          \<lparr>calc_calls = [(Latitude boulder_config, Longitude boulder_config, 2021, 6, 2)],
           sink = []\<rparr>)"
    using s by (simp add: UpdateSunriseSunset_eq Day_at_jun2_1000 boulder_calc_jun2
        empty_world_def)
  have d: "unix_nano sunrise_jun2 \<noteq> unix_nano sunrise_may1"
    by (simp add: sunrise_jun2_def sunrise_may1_def)
  from n u d calendarDay_may1 show ?thesis
    by (simp add: refreshIfStale_by_date_def)
qed

text \<open>
  C5. Applying the refresh a second time at once, with the same \<open>now\<close>, calls the
  calculator again exactly when the window returned by the first application is
  stale with respect to \<open>now\<close>; and that window is stale exactly when the cached
  window was stale and the calculator's window for the date of \<open>now\<close> is itself stale.
  So the second application makes no call unless the calculator answers with a
  sunrise or a sunset on the day of \<open>now - 24h\<close>.
\<close>

theorem second_refresh_calls:
  assumes "UpdateSunriseSunset calc config sr ss now w = ((sr1, ss1), w1)"
  shows "(calc_calls (snd (UpdateSunriseSunset calc config sr1 ss1 now w1)) = calc_calls w1
            \<longleftrightarrow> \<not> stale (sr1, ss1) now)
       \<and> (stale (sr1, ss1) now \<longleftrightarrow>
            stale (sr, ss) now
            \<and> stale (calc (Latitude config) (Longitude config) (Year now) (Month now) (Day now)) now)"
proof (cases "stale (sr, ss) now")
  case True
  with assms have "(sr1, ss1) =
      calc (Latitude config) (Longitude config) (Year now) (Month now) (Day now)"
    by (simp add: UpdateSunriseSunset_eq)
  with True show ?thesis
    by (simp add: UpdateSunriseSunset_eq)
next
  case False
  with assms have "sr1 = sr" and "ss1 = ss"
    by (simp_all add: UpdateSunriseSunset_eq)
  with False show ?thesis
    by (simp add: UpdateSunriseSunset_eq)
qed

theorem second_refresh_calls_witness:
  "UpdateSunriseSunset boulder_calc boulder_config sunrise_may31 sunset_may31 at_0644 empty_world
     = ((sunrise_0630, sunset_1945),
        \<lparr>calc_calls = [(Latitude boulder_config, Longitude boulder_config, 2021, 6, 1)],
         sink = []\<rparr>)
   \<and> \<not> stale (sunrise_0630, sunset_1945) at_0644
   \<and> calc_calls (snd (UpdateSunriseSunset boulder_calc boulder_config sunrise_0630 sunset_1945
         at_0644
         \<lparr>calc_calls = [(Latitude boulder_config, Longitude boulder_config, 2021, 6, 1)],
          sink = []\<rparr>))
       = [(Latitude boulder_config, Longitude boulder_config, 2021, 6, 1)]"
proof -
  have s1: "stale (sunrise_may31, sunset_may31) at_0644"
    by (simp add: stale_def Day_yesterday_at_0644 Day_boulder_windows)
  have s2: "\<not> stale (sunrise_0630, sunset_1945) at_0644"
    by (simp add: stale_def Day_yesterday_at_0644 Day_boulder_windows)
  have first: "UpdateSunriseSunset boulder_calc boulder_config sunrise_may31 sunset_may31
      at_0644 empty_world
     = ((sunrise_0630, sunset_1945),
        \<lparr>calc_calls = [(Latitude boulder_config, Longitude boulder_config, 2021, 6, 1)],
         sink = []\<rparr>)"
    using s1
    by (simp add: UpdateSunriseSunset_eq Day_at_0644 boulder_calc_jun1 empty_world_def)
  from second_refresh_calls [OF first] s2 first show ?thesis
    by simp
qed

text \<open>
  In Sydney at 08:00 on 2021-06-02 the cached window of the day before is stale, and
  so is the window the calculator answers with, whose sunrise is on 2021-06-01 in
  UTC: both applications call the calculator.
\<close>

theorem second_refresh_calls_again:
  "UpdateSunriseSunset sydney_calc sydney_config sydney_sunrise_jun1 sydney_sunset_jun1
       sydney_0800 empty_world
     = ((sydney_sunrise_jun2, sydney_sunset_jun2),
        \<lparr>calc_calls = [(Latitude sydney_config, Longitude sydney_config, 2021, 6, 2)],
         sink = []\<rparr>)
   \<and> stale (sydney_sunrise_jun2, sydney_sunset_jun2) sydney_0800
   \<and> UpdateSunriseSunset sydney_calc sydney_config sydney_sunrise_jun2 sydney_sunset_jun2
       sydney_0800
       \<lparr>calc_calls = [(Latitude sydney_config, Longitude sydney_config, 2021, 6, 2)],
        sink = []\<rparr>
     = ((sydney_sunrise_jun2, sydney_sunset_jun2),
        \<lparr>calc_calls = [(Latitude sydney_config, Longitude sydney_config, 2021, 6, 2),
                       (Latitude sydney_config, Longitude sydney_config, 2021, 6, 2)],
         sink = []\<rparr>)"
proof -
  have s1: "stale (sydney_sunrise_jun1, sydney_sunset_jun1) sydney_0800"
    by (simp add: stale_def Day_sydney_0800 Day_sydney_windows)
  have s2: "stale (sydney_sunrise_jun2, sydney_sunset_jun2) sydney_0800"
    by (simp add: stale_def Day_sydney_0800 Day_sydney_windows)
  from s1 s2 show ?thesis
    by (simp add: UpdateSunriseSunset_eq Day_sydney_0800 sydney_calc_jun2 empty_world_def)
qed

section \<open>Connecting to the sink\<close>

text \<open>
  C9. \<^verbatim>\<open>InfluxConnect\<close> returns an \<^verbatim>\<open>InfluxWriteConfigError\<close> exactly when the bucket is
  empty and the database or the retention policy is empty, and then leaves the
  configuration as it is. In every other case it returns a client and a write API
  and no error, and the configuration afterwards has \<^verbatim>\<open>FlushInterval\<close> 30 if it was 0
  and is otherwise unchanged.
\<close>

theorem InfluxConnect_result:
  "(fst (InfluxConnect config) = Inl InfluxWriteConfigError \<longleftrightarrow>
      Bucket (InfluxDB config) = []
      \<and> (Database (InfluxDB config) = [] \<or> RetentionPolicy (InfluxDB config) = []))
   \<and> (fst (InfluxConnect config) = Inl InfluxWriteConfigError \<longrightarrow>
        snd (InfluxConnect config) = config)
   \<and> (fst (InfluxConnect config) \<noteq> Inl InfluxWriteConfigError \<longrightarrow>
        (\<exists>client writeAPI. fst (InfluxConnect config) = Inr (client, writeAPI))
        \<and> snd (InfluxConnect config) =
            (if FlushInterval (InfluxDB config) = 0
             then config\<lparr>InfluxDB := (InfluxDB config)\<lparr>FlushInterval := 30\<rparr>\<rparr>
             else config))"
  by (simp add: InfluxConnect_def Let_def)

theorem InfluxConnect_result_witness:
  "fst (InfluxConnect no_destination) = Inl InfluxWriteConfigError
   \<and> snd (InfluxConnect no_destination) = no_destination
   \<and> fst (InfluxConnect boulder_config) \<noteq> Inl InfluxWriteConfigError
   \<and> FlushInterval (InfluxDB boulder_config) = 0
   \<and> FlushInterval (InfluxDB (snd (InfluxConnect boulder_config))) = 30"
proof -
  have a: "Bucket (InfluxDB no_destination) = []
      \<and> (Database (InfluxDB no_destination) = [] \<or> RetentionPolicy (InfluxDB no_destination) = [])"
    by (simp add: no_destination_def boulder_influx_def)
  have b: "\<not> (Bucket (InfluxDB boulder_config) = []
      \<and> (Database (InfluxDB boulder_config) = [] \<or> RetentionPolicy (InfluxDB boulder_config) = []))"
    by (simp add: boulder_config_def boulder_influx_def)
  have c: "FlushInterval (InfluxDB boulder_config) = 0"
    by (simp add: boulder_config_def boulder_influx_def)
  from InfluxConnect_result [of no_destination] a
  have 1: "fst (InfluxConnect no_destination) = Inl InfluxWriteConfigError"
    and 2: "snd (InfluxConnect no_destination) = no_destination"
    by simp_all
  from InfluxConnect_result [of boulder_config] b
  have 3: "fst (InfluxConnect boulder_config) \<noteq> Inl InfluxWriteConfigError"
    by simp
  with InfluxConnect_result [of boulder_config] c
  have 4: "FlushInterval (InfluxDB (snd (InfluxConnect boulder_config))) = 30"
    by simp
  from 1 2 3 c 4 show ?thesis by simp
qed

section \<open>Elapsed time and sleep\<close>

lemma int32_Unix: "int32 (Unix t) = word_of_int (unix_sec t)"
  by (simp add: int32_def Unix_def ucast_down_wi is_down)

lemma timeElapsed_eq: "timeElapsed t_start t_end = word_of_int (unix_sec t_end - unix_sec t_start)"
  by (simp add: timeElapsed_def int32_Unix)

lemma sint_timeElapsed:
  assumes "- (2 ^ 31) \<le> unix_sec t_end - unix_sec t_start"
    and "unix_sec t_end - unix_sec t_start < 2 ^ 31"
  shows "sint (timeElapsed t_start t_end) = unix_sec t_end - unix_sec t_start"
proof -
  have "sint (timeElapsed t_start t_end) = signed_take_bit 31 (unix_sec t_end - unix_sec t_start)"
    unfolding timeElapsed_eq sint_sbintrunc' by simp
  with assms show ?thesis
    by (simp add: signed_take_bit_int_eq_self)
qed

lemma sint_Second: "sint Second = 1000000000"
  by (simp add: Second_def)



lemma whole_seconds:
  assumes "unix_nano t_end = unix_nano t_start + k * 1000000000"
  shows "unix_sec t_end - unix_sec t_start = k"
  using assms by (simp add: unix_sec_def)

lemma seconds_granularity:
  "\<bar>(unix_sec t_end - unix_sec t_start) * 1000000000 - (unix_nano t_end - unix_nano t_start)\<bar>
     < 1000000000"
proof -
  define a where "a = unix_nano t_start"
  define b where "b = unix_nano t_end"
  have a: "a = (a div 1000000000) * 1000000000 + a mod 1000000000"
    and b: "b = (b div 1000000000) * 1000000000 + b mod 1000000000"
    by simp_all
  have "0 \<le> a mod 1000000000" "a mod 1000000000 < 1000000000"
    "0 \<le> b mod 1000000000" "b mod 1000000000 < 1000000000"
    by simp_all
  with a b have "\<bar>(b div 1000000000 - a div 1000000000) * 1000000000 - (b - a)\<bar> < 1000000000"
    by (simp add: algebra_simps)
  then show ?thesis
    by (simp add: unix_sec_def a_def b_def)
qed

lemma pollCycle_sleep:
  "fst (snd (pollCycle calc config writeAPI win r w)) =
     sleepArg (PollInterval config) (timeElapsed (at_start r) (at_end r))"
  by (simp add: pollCycle_def Let_def)

lemma pollCycle_sink:
  "sink (snd (snd (pollCycle calc config writeAPI win r w))) =
     sink w @
       [WritePoint \<lparr>Measurement = ''daylight'', Tags = Map.empty,
          Fields = [''daylight'' \<mapsto>
            BoolField (Daylight (fst (fst (pollCycle calc config writeAPI win r w)))
                         (snd (fst (pollCycle calc config writeAPI win r w))) (at_now r))],
          Timestamp = at_now r\<rparr>]"
  by (simp add: pollCycle_def Let_def WriteToInflux_def UpdateSunriseSunset_eq)

lemma pollCycle_window:
  "fst (pollCycle calc config writeAPI win r w) =
     refreshIfStale calc (Latitude config, Longitude config) win (at_now r)"
  by (simp add: pollCycle_def Let_def UpdateSunriseSunset_eq refreshIfStale_def)

lemma pollLoop_writes:
  "length (filter is_write (sink (snd (snd (pollLoop calc config writeAPI win rs w))))) =
     length (filter is_write (sink w)) + length rs"
proof (induction rs arbitrary: win w)
  case Nil
  show ?case by simp
next
  case (Cons r rs)
  obtain win' d w' where c: "pollCycle calc config writeAPI win r w = (win', d, w')"
    by (cases "pollCycle calc config writeAPI win r w") auto
  obtain win'' ds w'' where l: "pollLoop calc config writeAPI win' rs w' = (win'', ds, w'')"
    by (cases "pollLoop calc config writeAPI win' rs w'") auto
  from c pollCycle_sink [of calc config writeAPI win r w]
  have "length (filter is_write (sink w')) = length (filter is_write (sink w)) + 1"
    by simp
  with Cons.IH [of win' w'] c l show ?case
    by simp
qed

lemma sint_sleepArg_wraps:
  "sint (sleepArg p e) = signed_take_bit 63 ((sint p - sint e) * 1000000000)"
proof -
  have up: "sint (scast e :: 64 word) = sint e"
    by (rule sint_up_scast) (simp add: is_up)
  have "sint (sleepArg p e) =
      signed_take_bit 63 (signed_take_bit 63 (sint p * 1000000000)
                           - signed_take_bit 63 (sint e * 1000000000))"
    by (simp add: sleepArg_def sint_word_diff sint_word_mult sint_Second up)
  also have "\<dots> = signed_take_bit 63 (sint p * 1000000000 - sint e * 1000000000)"
    by (rule signed_take_bit_diff)
  also have "sint p * 1000000000 - sint e * 1000000000 = (sint p - sint e) * 1000000000"
    by (simp add: algebra_simps)
  finally show ?thesis .
qed

lemma Sleep_fits:
  assumes "- (2 ^ 63) \<le> (sint p - sint e) * 1000000000"
    and "(sint p - sint e) * 1000000000 < 2 ^ 63"
  shows "Sleep (sleepArg p e) = max 0 ((sint p - sint e) * 1000000000)"
proof -
  from assms have "sint (sleepArg p e) = (sint p - sint e) * 1000000000"
    unfolding sint_sleepArg_wraps by (rule signed_take_bit_int_eq_self)
  then show ?thesis
    by (simp add: Sleep_def max_def)
qed

lemma pollLoop_requests:
  "fst (snd (pollLoop calc config writeAPI win rs w)) =
     map (\<lambda>r. Sleep (sleepArg (PollInterval config) (timeElapsed (at_start r) (at_end r)))) rs"
proof (induction rs arbitrary: win w)
  case Nil
  show ?case by simp
next
  case (Cons r rs)
  obtain win' d w' where c: "pollCycle calc config writeAPI win r w = (win', d, w')"
    by (cases "pollCycle calc config writeAPI win r w") auto
  obtain win'' ds w'' where l: "pollLoop calc config writeAPI win' rs w' = (win'', ds, w'')"
    by (cases "pollLoop calc config writeAPI win' rs w'") auto
  from c pollCycle_sleep [of calc config writeAPI win r w]
  have d: "d = sleepArg (PollInterval config) (timeElapsed (at_start r) (at_end r))"
    by simp
  from Cons.IH [of win' w'] l
  have "ds = map (\<lambda>r. Sleep (sleepArg (PollInterval config)
                               (timeElapsed (at_start r) (at_end r)))) rs"
    by simp
  with c l d show ?case
    by simp
qed

lemma pollLoop_sleeps_aux:
  assumes "\<forall>r \<in> set rs.
      - (2 ^ 31) \<le> unix_sec (at_end r) - unix_sec (at_start r)
      \<and> unix_sec (at_end r) - unix_sec (at_start r) < 2 ^ 31
      \<and> - (2 ^ 63) \<le> (sint (PollInterval config)
                          - (unix_sec (at_end r) - unix_sec (at_start r))) * 1000000000
      \<and> (sint (PollInterval config)
           - (unix_sec (at_end r) - unix_sec (at_start r))) * 1000000000 < 2 ^ 63"
  shows "fst (snd (pollLoop calc config writeAPI win rs w)) =
           map (\<lambda>r. max 0 ((sint (PollInterval config)
                             - (unix_sec (at_end r) - unix_sec (at_start r))) * 1000000000)) rs"
proof -
  have "Sleep (sleepArg (PollInterval config) (timeElapsed (at_start r) (at_end r))) =
      max 0 ((sint (PollInterval config)
               - (unix_sec (at_end r) - unix_sec (at_start r))) * 1000000000)"
    if "r \<in> set rs" for r
  proof -
    from that assms have e: "sint (timeElapsed (at_start r) (at_end r)) =
        unix_sec (at_end r) - unix_sec (at_start r)"
      by (simp add: sint_timeElapsed)
    from that assms show ?thesis
      by (intro Sleep_fits [THEN trans]) (simp_all add: e)
  qed
  then show ?thesis
    unfolding pollLoop_requests by (intro map_cong) simp_all
qed

text \<open>
  C6. After each cycle the loop asks to sleep for the maximum of 0 and the poll
  interval less the elapsed time, where the elapsed time is the difference of the
  whole clock seconds read at the end and at the start of the cycle. That difference
  is within one second of the time the cycle took, and is the time the cycle took
  when that is a whole number of seconds. This holds when the difference of the clock
  seconds fits 32 bits and the poll interval less that difference, in nanoseconds,
  fits 64 bits. Every cycle submits its sample, whatever the sleeps were: after an
  overrun the sleep is 0 and the next cycle runs.
\<close>

theorem pollLoop_sleeps:
  assumes "\<forall>r \<in> set rs.
      - (2 ^ 31) \<le> unix_sec (at_end r) - unix_sec (at_start r)
      \<and> unix_sec (at_end r) - unix_sec (at_start r) < 2 ^ 31
      \<and> - (2 ^ 63) \<le> (sint (PollInterval config)
                          - (unix_sec (at_end r) - unix_sec (at_start r))) * 1000000000
      \<and> (sint (PollInterval config)
           - (unix_sec (at_end r) - unix_sec (at_start r))) * 1000000000 < 2 ^ 63"
  shows "fst (snd (pollLoop calc config writeAPI win rs w)) =
           map (\<lambda>r. max 0 ((sint (PollInterval config)
                             - (unix_sec (at_end r) - unix_sec (at_start r))) * 1000000000)) rs
       \<and> length (filter is_write (sink (snd (snd (pollLoop calc config writeAPI win rs w))))) =
           length (filter is_write (sink w)) + length rs
       \<and> (\<forall>r \<in> set rs. \<forall>k. unix_nano (at_end r) = unix_nano (at_start r) + k * 1000000000
             \<longrightarrow> unix_sec (at_end r) - unix_sec (at_start r) = k)
       \<and> (\<forall>r \<in> set rs.
             \<bar>(unix_sec (at_end r) - unix_sec (at_start r)) * 1000000000
               - (unix_nano (at_end r) - unix_nano (at_start r))\<bar> < 1000000000)"
  using pollLoop_sleeps_aux [OF assms] pollLoop_writes whole_seconds seconds_granularity
  by blast

lemma cycle_seconds:
  "unix_sec (at_start cycle_5s) = 1622551440"
  "unix_sec (at_end cycle_5s) = 1622551445"
  "unix_sec (at_start cycle_65s) = 1622551440"
  "unix_sec (at_end cycle_65s) = 1622551505"
  by (simp_all add: cycle_5s_def cycle_65s_def unix_sec_def at_0644_def at_064405_def
      at_064505_def)

lemma PollInterval_boulder_running: "sint (PollInterval boulder_running) = 60"
  by (simp add: boulder_running_def boulder_config_def)

theorem pollLoop_sleeps_witness:
  "fst (snd (pollLoop boulder_calc boulder_running boulder_api (sunrise_0630, sunset_1945)
               [cycle_5s, cycle_65s] empty_world))
     = [55000000000, 0]
   \<and> length (filter is_write (sink (snd (snd
        (pollLoop boulder_calc boulder_running boulder_api (sunrise_0630, sunset_1945)
               [cycle_5s, cycle_65s] empty_world))))) = 2"
proof -
  have c: "\<forall>r \<in> set [cycle_5s, cycle_65s].
      - (2 ^ 31) \<le> unix_sec (at_end r) - unix_sec (at_start r)
      \<and> unix_sec (at_end r) - unix_sec (at_start r) < 2 ^ 31
      \<and> - (2 ^ 63) \<le> (sint (PollInterval boulder_running)
                          - (unix_sec (at_end r) - unix_sec (at_start r))) * 1000000000
      \<and> (sint (PollInterval boulder_running)
           - (unix_sec (at_end r) - unix_sec (at_start r))) * 1000000000 < 2 ^ 63"
    by (simp add: cycle_seconds PollInterval_boulder_running)
  from pollLoop_sleeps [OF c, of boulder_calc boulder_api "(sunrise_0630, sunset_1945)"
      empty_world]
  show ?thesis
    by (simp add: cycle_seconds PollInterval_boulder_running empty_world_def
        del: pollLoop.simps)
qed

text \<open>
  With a poll interval of 60 seconds: a cycle of one nanosecond that crosses the
  turn of a clock second sleeps 59 seconds, and a cycle of 0.999999999 seconds within
  one clock second sleeps 60 seconds. A poll interval of 9223372042 seconds
  overflows 64 bits and the loop does not sleep at all after a cycle of 5 seconds; a
  clock set forward by \<open>2^31\<close> seconds during a cycle overflows 32 bits and the loop
  sleeps for 2147483708 seconds.
\<close>

theorem sleep_by_clock_seconds:
  "unix_nano (at_end cycle_1ns) - unix_nano (at_start cycle_1ns) = 1
   \<and> unix_nano (at_end cycle_same_second) - unix_nano (at_start cycle_same_second) = 999999999
   \<and> fst (snd (pollLoop boulder_calc boulder_running boulder_api (sunrise_0630, sunset_1945)
                  [cycle_1ns, cycle_same_second] empty_world))
        = [59000000000, 60000000000]
   \<and> max 0 (60 * 1000000000 - 1) = (59999999999 :: int)
   \<and> max 0 (60 * 1000000000 - 999999999) = (59000000001 :: int)
   \<and> fst (snd (pollLoop boulder_calc long_interval boulder_api (sunrise_0630, sunset_1945)
                  [cycle_5s] empty_world))
        = [0]
   \<and> fst (snd (pollLoop boulder_calc boulder_running boulder_api (sunrise_0630, sunset_1945)
                  [cycle_clock_set] empty_world))
        = [2147483708000000000]"
proof -
  have n: "unix_nano (at_end cycle_1ns) - unix_nano (at_start cycle_1ns) = 1"
    "unix_nano (at_end cycle_same_second) - unix_nano (at_start cycle_same_second) = 999999999"
    by (simp_all add: cycle_1ns_def cycle_same_second_def at_0644_def at_0644_same_second_def
        at_064401_def)
  have e1: "timeElapsed (at_start cycle_1ns) (at_end cycle_1ns) = 1"
    by (simp add: timeElapsed_eq unix_sec_def cycle_1ns_def at_0644_same_second_def
        at_064401_def)
  have e2: "timeElapsed (at_start cycle_same_second) (at_end cycle_same_second) = 0"
    by (simp add: timeElapsed_eq unix_sec_def cycle_same_second_def at_0644_def
        at_0644_same_second_def)
  have e3: "timeElapsed (at_start cycle_5s) (at_end cycle_5s) = 5"
    by (simp add: timeElapsed_eq cycle_seconds)
  have e4: "timeElapsed (at_start cycle_clock_set) (at_end cycle_clock_set) = 2147483648"
    by (simp add: timeElapsed_eq unix_sec_def cycle_clock_set_def unix_epoch_def at_2_31_def)
  have p: "PollInterval boulder_running = 60" "PollInterval long_interval = 9223372042"
    by (simp_all add: long_interval_def boulder_running_def boulder_config_def)
  have s1: "Sleep (sleepArg 60 1) = 59000000000"
    by (simp add: Sleep_def sleepArg_def Second_def)
  have s2: "Sleep (sleepArg 60 0) = 60000000000"
    by (simp add: Sleep_def sleepArg_def Second_def)
  have s3: "Sleep (sleepArg 9223372042 5) = 0"
    by (simp add: Sleep_def sleepArg_def Second_def)
  have s4: "Sleep (sleepArg 60 2147483648) = 2147483708000000000"
    by (simp add: Sleep_def sleepArg_def Second_def)
  from n show ?thesis
    by (simp add: pollLoop_requests p e1 e2 e3 e4 s1 s2 s3 s4 del: pollLoop.simps)
qed









section \<open>The submitted sample\<close>

lemma pollCycle_v1_window:
  "fst (pollCycle_v1 calc config influxConn win r w) =
     refreshIfStale calc (Latitude_v1 config, Longitude_v1 config) win (at_now r)"
  unfolding pollCycle_v1_def UpdateSunriseSunset_v1_def Let_def refreshIfStale_def stale_def
    Add_minus_24h
  by simp

lemma pollCycle_v1_sink:
  "sink (snd (snd (pollCycle_v1 calc config influxConn win r w))) =
     sink w @
       [WriteBatch
          \<lparr>Points =
             [\<lparr>Measurement = InfluxDBMeasurement config, Tags = Map.empty,
               Fields = [''daylight'' \<mapsto>
                 BoolField (Daylight (fst (fst (pollCycle_v1 calc config influxConn win r w)))
                              (snd (fst (pollCycle_v1 calc config influxConn win r w)))
                              (at_now r))],
               Timestamp = at_now r, Precision = ''ns''\<rparr>],
           BatchDatabase = InfluxDBDatabase config,
           BatchRetentionPolicy = InfluxDBRetentionPolicy config\<rparr>]"
  unfolding pollCycle_v1_def UpdateSunriseSunset_v1_def Let_def WriteToInflux_v1_def
  by simp

text \<open>
  C8. In a cycle evaluated at \<open>now\<close> exactly one point is submitted. It carries no
  tags and one field, named \<open>daylight\<close>, holding the boolean that the evaluation
  gives at \<open>now\<close> for the window after the refresh, and its time is \<open>now\<close>. The current
  program names the measurement \<open>daylight\<close>; the earlier version names it as its
  configuration says.
\<close>

theorem submitted_point:
  "sink (snd (snd (pollCycle calc config writeAPI win r w))) =
     sink w @
       [WritePoint
          \<lparr>Measurement = ''daylight'', Tags = Map.empty,
           Fields = [''daylight'' \<mapsto>
             BoolField (Daylight
               (fst (refreshIfStale calc (Latitude config, Longitude config) win (at_now r)))
               (snd (refreshIfStale calc (Latitude config, Longitude config) win (at_now r)))
               (at_now r))],
           Timestamp = at_now r\<rparr>]
   \<and> sink (snd (snd (pollCycle_v1 calc config1 influxConn win r w))) =
     sink w @
       [WriteBatch
          \<lparr>Points =
             [\<lparr>Measurement = InfluxDBMeasurement config1, Tags = Map.empty,
               Fields = [''daylight'' \<mapsto>
                 BoolField (Daylight
                   (fst (refreshIfStale calc (Latitude_v1 config1, Longitude_v1 config1) win
                          (at_now r)))
                   (snd (refreshIfStale calc (Latitude_v1 config1, Longitude_v1 config1) win
                          (at_now r)))
                   (at_now r))],
               Timestamp = at_now r, Precision = ''ns''\<rparr>],
           BatchDatabase = InfluxDBDatabase config1,
           BatchRetentionPolicy = InfluxDBRetentionPolicy config1\<rparr>]
   \<and> dom [''daylight'' \<mapsto> BoolField b] = {''daylight''}
   \<and> dom (Map.empty :: string \<rightharpoonup> string) = {}"
  using pollCycle_sink [of calc config writeAPI win r w]
    pollCycle_v1_sink [of calc config1 influxConn win r w]
  by (simp add: pollCycle_window pollCycle_v1_window)

lemma boulder_not_stale:
  "refreshIfStale calc loc (sunrise_0630, sunset_1945) at_0644 = (sunrise_0630, sunset_1945)"
  by (simp add: refreshIfStale_def stale_def Day_yesterday_at_0644 Day_boulder_windows)

lemma Daylight_at_0644: "Daylight sunrise_0630 sunset_1945 at_0644"
  by (simp add: Daylight_iff sunrise_0630_def sunset_1945_def at_0644_def)

lemma at_now_cycle_5s: "at_now cycle_5s = at_0644"
  by (simp add: cycle_5s_def)

theorem submitted_point_witness:
  "sink (snd (snd (pollCycle boulder_calc boulder_running boulder_api
                     (sunrise_0630, sunset_1945) cycle_5s empty_world))) =
     [WritePoint
        \<lparr>Measurement = ''daylight'', Tags = Map.empty,
         Fields = [''daylight'' \<mapsto> BoolField True], Timestamp = at_0644\<rparr>]"
  using submitted_point [of boulder_calc boulder_running boulder_api
      "(sunrise_0630, sunset_1945)" cycle_5s empty_world]
  by (simp add: boulder_not_stale Daylight_at_0644 at_now_cycle_5s empty_world_def)

text \<open>
  The earlier version, configured with the measurement \<open>sun\<close>, submits a point of
  that name.
\<close>

theorem measurement_name_configured:
  "sink (snd (snd (pollCycle_v1 boulder_calc sun_config accepting_conn
                     (sunrise_0630, sunset_1945) cycle_5s empty_world))) =
     [WriteBatch
        \<lparr>Points =
           [\<lparr>Measurement = ''sun'', Tags = Map.empty,
             Fields = [''daylight'' \<mapsto> BoolField True],
             Timestamp = at_0644, Precision = ''ns''\<rparr>],
         BatchDatabase = ''mydb'', BatchRetentionPolicy = ''autogen''\<rparr>]
   \<and> ''sun'' \<noteq> ''daylight''"
  by (simp add: pollCycle_v1_sink pollCycle_v1_window boulder_not_stale Daylight_at_0644
      at_now_cycle_5s empty_world_def sun_config_def)

section \<open>Shutdown\<close>

lemma exec_Poll:
  assumes "pc p \<noteq> Exited"
  shows "exec calc config writeAPI p (Poll r) =
           Some (p\<lparr>window := fst (pollCycle calc config writeAPI (window p) r (world p)),
                   world := snd (snd (pollCycle calc config writeAPI (window p) r (world p)))\<rparr>)"
  using assms by (simp add: exec_def split: prod.split)

lemma exec_calls:
  assumes "exec calc config writeAPI p a = Some p'"
    and "filter (\<lambda>e. \<not> is_write e) (sink (world p)) =
           (case pc p of AwaitSignal \<Rightarrow> [] | Caught \<Rightarrow> [] | Returning \<Rightarrow> [Flush]
            | DeferredFlushDone \<Rightarrow> [Flush, Flush] | Closing \<Rightarrow> [Flush, Flush, Close]
            | Exited \<Rightarrow> [Flush, Flush, Close])"
  shows "filter (\<lambda>e. \<not> is_write e) (sink (world p')) =
           (case pc p' of AwaitSignal \<Rightarrow> [] | Caught \<Rightarrow> [] | Returning \<Rightarrow> [Flush]
            | DeferredFlushDone \<Rightarrow> [Flush, Flush] | Closing \<Rightarrow> [Flush, Flush, Close]
            | Exited \<Rightarrow> [Flush, Flush, Close])"
proof (cases a)
  case Signal
  with assms show ?thesis
    by (auto simp: exec_def split: if_splits)
next
  case Main
  with assms show ?thesis
    by (cases "pc p") (auto simp: exec_def)
next
  case (Poll r)
  from assms(1) have ne: "pc p \<noteq> Exited"
    by (auto simp: exec_def split: if_splits)
  from exec_Poll [OF ne, of calc config writeAPI r] assms(1) Poll
  have p': "p' = p\<lparr>window := fst (pollCycle calc config writeAPI (window p) r (world p)),
                   world := snd (snd (pollCycle calc config writeAPI (window p) r (world p)))\<rparr>"
    by simp
  show ?thesis
    using assms(2) by (simp add: p' pollCycle_sink)
qed

lemma run_calls:
  assumes "run calc config writeAPI p as = Some p'"
    and "filter (\<lambda>e. \<not> is_write e) (sink (world p)) =
           (case pc p of AwaitSignal \<Rightarrow> [] | Caught \<Rightarrow> [] | Returning \<Rightarrow> [Flush]
            | DeferredFlushDone \<Rightarrow> [Flush, Flush] | Closing \<Rightarrow> [Flush, Flush, Close]
            | Exited \<Rightarrow> [Flush, Flush, Close])"
  shows "filter (\<lambda>e. \<not> is_write e) (sink (world p')) =
           (case pc p' of AwaitSignal \<Rightarrow> [] | Caught \<Rightarrow> [] | Returning \<Rightarrow> [Flush]
            | DeferredFlushDone \<Rightarrow> [Flush, Flush] | Closing \<Rightarrow> [Flush, Flush, Close]
            | Exited \<Rightarrow> [Flush, Flush, Close])"
  using assms
proof (induction as arbitrary: p)
  case Nil
  then show ?case by simp
next
  case (Cons a as)
  from Cons.prems(1) obtain q where q: "exec calc config writeAPI p a = Some q"
    and r: "run calc config writeAPI q as = Some p'"
    by (auto split: option.splits)
  from exec_calls [OF q Cons.prems(2)] Cons.IH [OF r] show ?case
    by simp
qed

lemma start_calls:
  assumes "start calc config0 now = Inr (config, writeAPI, p0)"
  shows "pc p0 = AwaitSignal" and "sink (world p0) = []"
  using assms by (auto simp: start_def split: prod.splits sum.splits)

lemma flush_calls_filter:
  "flush_calls es = flush_calls (filter (\<lambda>e. \<not> is_write e) es)"
  unfolding flush_calls_def filter_filter
  by (rule arg_cong [where f = length], rule filter_cong) auto

lemma Poll_submits:
  assumes "pc p \<noteq> Exited"
  shows "\<exists>p' point. exec calc config writeAPI p (Poll r) = Some p' \<and> pc p' = pc p
           \<and> sink (world p') = sink (world p) @ [WritePoint point]"
  using assms by (simp add: exec_Poll pollCycle_sink)

text \<open>
  C3. From start-up on, whatever the order of signals, steps of \<^verbatim>\<open>main\<close> and poll
  cycles: the calls made to the sink other than submissions are none while \<^verbatim>\<open>main\<close>
  waits, and then a flush, a second flush and the close of the client; so the sink
  has been flushed twice when the process ends. As long as the process has not ended
  a poll cycle can run and submits its sample, also after the signal, after either
  flush and after the call of \<^verbatim>\<open>Close\<close>: the signal does not stop the loop.
\<close>

theorem shutdown_calls:
  assumes "start calc config0 now = Inr (config, writeAPI, p0)"
    and "run calc config writeAPI p0 as = Some p"
  shows "filter (\<lambda>e. \<not> is_write e) (sink (world p)) =
           (case pc p of AwaitSignal \<Rightarrow> [] | Caught \<Rightarrow> [] | Returning \<Rightarrow> [Flush]
            | DeferredFlushDone \<Rightarrow> [Flush, Flush] | Closing \<Rightarrow> [Flush, Flush, Close]
            | Exited \<Rightarrow> [Flush, Flush, Close])
       \<and> (pc p = Exited \<longrightarrow> flush_calls (sink (world p)) = 2)
       \<and> (pc p \<noteq> Exited \<longrightarrow>
            (\<forall>r. \<exists>p' point. exec calc config writeAPI p (Poll r) = Some p' \<and> pc p' = pc p
                    \<and> sink (world p') = sink (world p) @ [WritePoint point]))"
proof -
  from start_calls [OF assms(1)]
  have "filter (\<lambda>e. \<not> is_write e) (sink (world p0)) =
           (case pc p0 of AwaitSignal \<Rightarrow> [] | Caught \<Rightarrow> [] | Returning \<Rightarrow> [Flush]
            | DeferredFlushDone \<Rightarrow> [Flush, Flush] | Closing \<Rightarrow> [Flush, Flush, Close]
            | Exited \<Rightarrow> [Flush, Flush, Close])"
    by simp
  from run_calls [OF assms(2) this]
  have calls: "filter (\<lambda>e. \<not> is_write e) (sink (world p)) =
           (case pc p of AwaitSignal \<Rightarrow> [] | Caught \<Rightarrow> [] | Returning \<Rightarrow> [Flush]
            | DeferredFlushDone \<Rightarrow> [Flush, Flush] | Closing \<Rightarrow> [Flush, Flush, Close]
            | Exited \<Rightarrow> [Flush, Flush, Close])" .
  have "flush_calls (sink (world p)) = 2" if "pc p = Exited"
    using calls that flush_calls_filter [of "sink (world p)"]
    by (simp add: flush_calls_def)
  with calls Poll_submits [of p calc config writeAPI] show ?thesis
    by blast
qed

lemma start_boulder:
  "start boulder_calc boulder_config at_0644 = Inr (boulder_running, boulder_api, boulder_proc)"
  by (simp add: start_def InfluxConnect_def Let_def boulder_config_def boulder_influx_def
      boulder_running_def boulder_api_def boulder_proc_def Day_at_0644 boulder_calc_jun1)

lemma run_signal_between_cycles:
  "run boulder_calc boulder_running boulder_api boulder_proc [Signal, Main, Main, Main, Main] =
     Some (boulder_proc\<lparr>pc := Exited,
             world := (world boulder_proc)\<lparr>sink := [Flush, Flush, Close]\<rparr>\<rparr>)"
  "run boulder_calc boulder_running boulder_api boulder_proc [Signal, Main, Main, Main] =
     Some (boulder_proc\<lparr>pc := Closing,
             world := (world boulder_proc)\<lparr>sink := [Flush, Flush, Close]\<rparr>\<rparr>)"
  by (simp_all add: exec_def boulder_proc_def)

theorem shutdown_calls_witness:
  "start boulder_calc boulder_config at_0644 = Inr (boulder_running, boulder_api, boulder_proc)
   \<and> run boulder_calc boulder_running boulder_api boulder_proc [Signal, Main, Main, Main, Main] =
       Some (boulder_proc\<lparr>pc := Exited,
               world := (world boulder_proc)\<lparr>sink := [Flush, Flush, Close]\<rparr>\<rparr>)
   \<and> flush_calls (sink (world (boulder_proc\<lparr>pc := Exited,
               world := (world boulder_proc)\<lparr>sink := [Flush, Flush, Close]\<rparr>\<rparr>))) = 2
   \<and> run boulder_calc boulder_running boulder_api boulder_proc [Signal, Main, Main, Main] =
       Some (boulder_proc\<lparr>pc := Closing,
               world := (world boulder_proc)\<lparr>sink := [Flush, Flush, Close]\<rparr>\<rparr>)
   \<and> (\<exists>p' point.
        exec boulder_calc boulder_running boulder_api
          (boulder_proc\<lparr>pc := Closing,
               world := (world boulder_proc)\<lparr>sink := [Flush, Flush, Close]\<rparr>\<rparr>)
          (Poll cycle_5s) = Some p'
        \<and> pc p' = Closing
        \<and> sink (world p') = [Flush, Flush, Close, WritePoint point])"
proof -
  have e: "pc (boulder_proc\<lparr>pc := Exited,
               world := (world boulder_proc)\<lparr>sink := [Flush, Flush, Close]\<rparr>\<rparr>) = Exited"
    by simp
  have n: "pc (boulder_proc\<lparr>pc := Closing,
               world := (world boulder_proc)\<lparr>sink := [Flush, Flush, Close]\<rparr>\<rparr>) \<noteq> Exited"
    by simp
  from shutdown_calls [OF start_boulder run_signal_between_cycles(1)] e
  have 1: "flush_calls (sink (world (boulder_proc\<lparr>pc := Exited,
               world := (world boulder_proc)\<lparr>sink := [Flush, Flush, Close]\<rparr>\<rparr>))) = 2"
    by blast
  from shutdown_calls [OF start_boulder run_signal_between_cycles(2)] n
  have "\<exists>p' point.
        exec boulder_calc boulder_running boulder_api
          (boulder_proc\<lparr>pc := Closing,
               world := (world boulder_proc)\<lparr>sink := [Flush, Flush, Close]\<rparr>\<rparr>)
          (Poll cycle_5s) = Some p'
        \<and> pc p' = pc (boulder_proc\<lparr>pc := Closing,
               world := (world boulder_proc)\<lparr>sink := [Flush, Flush, Close]\<rparr>\<rparr>)
        \<and> sink (world p') =
            sink (world (boulder_proc\<lparr>pc := Closing,
               world := (world boulder_proc)\<lparr>sink := [Flush, Flush, Close]\<rparr>\<rparr>))
              @ [WritePoint point]"
    by blast
  then have 2: "\<exists>p' point.
        exec boulder_calc boulder_running boulder_api
          (boulder_proc\<lparr>pc := Closing,
               world := (world boulder_proc)\<lparr>sink := [Flush, Flush, Close]\<rparr>\<rparr>)
          (Poll cycle_5s) = Some p'
        \<and> pc p' = Closing
        \<and> sink (world p') = [Flush, Flush, Close, WritePoint point]"
    by simp
  from start_boulder run_signal_between_cycles 1 2 show ?thesis
    by blast
qed

text \<open>
  A signal that arrives between two cycles: the sink is flushed twice. A cycle that
  runs between the two flushes: its sample is submitted after the first flush. A
  cycle that runs while the client is being closed: its sample is submitted after
  both flushes and the call of \<^verbatim>\<open>Close\<close>.
\<close>

theorem flushed_twice:
  "map_option (\<lambda>p. (pc p, flush_calls (sink (world p)), map is_write (sink (world p))))
     (run boulder_calc boulder_running boulder_api boulder_proc
        [Poll cycle_5s, Signal, Main, Main, Main, Main])
     = Some (Exited, 2, [True, False, False, False])
   \<and> map_option (\<lambda>p. (pc p, flush_calls (sink (world p)), map is_write (sink (world p))))
     (run boulder_calc boulder_running boulder_api boulder_proc
        [Signal, Main, Poll cycle_5s, Main, Main, Main])
     = Some (Exited, 2, [False, True, False, False])
   \<and> map_option (\<lambda>p. (pc p, flush_calls (sink (world p)), map is_write (sink (world p))))
     (run boulder_calc boulder_running boulder_api boulder_proc
        [Signal, Main, Main, Main, Poll cycle_5s, Main])
     = Some (Exited, 2, [False, False, False, True])"
  by (simp add: exec_def boulder_proc_def pollCycle_def Let_def WriteToInflux_def
      UpdateSunriseSunset_eq flush_calls_def split: prod.split)

end
